theory Spec2Isabelle
  imports Complex_Main
begin

section \<open>JavaScript values used by the storefront client\<close>

text \<open>
  The client (\<^verbatim>\<open>src/client/src/App.jsx\<close>) is JavaScript. The embedding fixes the
  following reading of its values.

  \<^item> Numbers (prices, totals, amounts) are exact rationals: \<open>+\<close> and \<open>*\<close> are the
    mathematical operations, so the binary rounding that IEEE doubles add to every
    operation is outside the model. \<^verbatim>\<open>Number.prototype.toFixed(2)\<close> is defined by
    ECMAScript on the exact value of its argument, which is what \<open>toFixed2\<close> below does.
  \<^item> Strings are \<open>string\<close>. \<^verbatim>\<open>toLowerCase\<close> is modelled on the ASCII letters; no
    non-ASCII character lowercases to one of the ASCII letters that the code compares
    against (\<^verbatim>\<open>low light extra normal vegan\<close>), so the comparisons come out the same.
  \<^item> A value that may be \<^verbatim>\<open>undefined\<close> or \<^verbatim>\<open>null\<close> is an \<open>option\<close>.
\<close>

definition lower_char :: "char \<Rightarrow> char" where
  "lower_char c =
     (case map_of (zip ''ABCDEFGHIJKLMNOPQRSTUVWXYZ'' ''abcdefghijklmnopqrstuvwxyz'') c of
        Some l \<Rightarrow> l
      | None \<Rightarrow> c)"

definition toLowerCase :: "string \<Rightarrow> string" where
  "toLowerCase s = map lower_char s"

text \<open>\<^verbatim>\<open>hay.startsWith(needle)\<close> and \<^verbatim>\<open>hay.includes(needle)\<close>.\<close>

fun startsWith :: "string \<Rightarrow> string \<Rightarrow> bool" where
  "startsWith hay [] = True"
| "startsWith [] (c # cs) = False"
| "startsWith (h # hs) (c # cs) = (h = c \<and> startsWith hs cs)"

fun includes_str :: "string \<Rightarrow> string \<Rightarrow> bool" where
  "includes_str [] needle = startsWith [] needle"
| "includes_str (h # hs) needle = (startsWith (h # hs) needle \<or> includes_str hs needle)"

text \<open>
  \<^verbatim>\<open>x.toFixed(2)\<close> read back by \<^verbatim>\<open>Number(...)\<close>. ECMAScript: a negative \<open>x\<close> is
  negated and the sign is put in front; for \<open>x \<ge> 0\<close> the digits are those of the
  integer \<open>n\<close> for which \<open>n / 100 - x\<close> is as close to zero as possible, the larger
  \<open>n\<close> when there are two.
\<close>

definition toFixed2 :: "rat \<Rightarrow> rat" where
  "toFixed2 x =
     (if x < 0 then - (of_int \<lfloor>(- x) * 100 + 1 / 2\<rfloor> / 100)
      else of_int \<lfloor>x * 100 + 1 / 2\<rfloor> / 100)"

section \<open>The builder: catalog options and the selection\<close>

text \<open>
  One variant as \<^verbatim>\<open>GET /api/customize\<close> delivers it to the builder: \<^verbatim>\<open>id\<close>,
  \<^verbatim>\<open>name\<close>, \<^verbatim>\<open>price\<close> and the flag \<^verbatim>\<open>disabled\<close> (a missing flag is falsy, here
  \<open>False\<close>). A category that is missing from the response is read as \<^verbatim>\<open>[]\<close> by the
  code (\<^verbatim>\<open>opts.bases || []\<close>, \<^verbatim>\<open>opts.bases?.find\<close>), here the empty list.
\<close>

record variant =
  v_id :: string
  v_name :: string
  v_price :: rat
  v_disabled :: bool

record options =
  bases :: "variant list"
  sauces :: "variant list"
  cheeses :: "variant list"
  veggies :: "variant list"

text \<open>
  The builder's state \<^verbatim>\<open>sel\<close>. An unselected slot is the empty string, as in the
  initial state. \<^verbatim>\<open>sel.density\<close> has three optional fields (a missing \<^verbatim>\<open>density\<close>
  object is the record of three \<open>None\<close>: \<^verbatim>\<open>const d = sel.density || {}\<close>);
  \<^verbatim>\<open>toppingLevels\<close> is a dictionary from veggie id to level.
\<close>

record density =
  d_sauce :: "string option"
  d_cheese :: "string option"
  d_toppings :: "string option"

record selection =
  sel_base :: string
  sel_sauce :: string
  sel_cheese :: string
  sel_veggies :: "string list"
  sel_density :: density
  sel_toppingLevels :: "string \<rightharpoonup> string"

section \<open>The pricing effect of \<^verbatim>\<open>CustomBuilder\<close>\<close>

text \<open>
  \<^verbatim>\<open>const find = (arr, id) => arr.find(x => x.id === id)?.price || 0\<close>: the price of
  the first variant with that id, \<open>0\<close> when there is none (and \<open>0\<close> for a price that
  is itself \<open>0\<close>).
\<close>

definition find_price :: "variant list \<Rightarrow> string \<Rightarrow> rat" where
  "find_price arr i =
     (case List.find (\<lambda>x. v_id x = i) arr of
        None \<Rightarrow> 0
      | Some x \<Rightarrow> (if v_price x = 0 then 0 else v_price x))"

text \<open>\<^verbatim>\<open>const norm = (v) => String(v || 'normal').toLowerCase()\<close>: \<^verbatim>\<open>undefined\<close> and
  the empty string are falsy.\<close>

definition norm_level :: "string option \<Rightarrow> string" where
  "norm_level v =
     toLowerCase (case v of None \<Rightarrow> ''normal'' | Some s \<Rightarrow> (if s = [] then ''normal'' else s))"

definition mult :: "string option \<Rightarrow> rat" where
  "mult amt =
     (let a = norm_level amt
      in if a = ''low'' \<or> a = ''light'' then 1 else (if a = ''extra'' then 3 else 2))"

text \<open>\<^verbatim>\<open>sel.toppingLevels?.[id] ?? d.toppings ?? 'normal'\<close>: \<^verbatim>\<open>??\<close> falls through on
  \<^verbatim>\<open>undefined\<close> only, so an empty-string override stays.\<close>

definition level :: "selection \<Rightarrow> string \<Rightarrow> string option" where
  "level sel i =
     (case sel_toppingLevels sel i of
        Some l \<Rightarrow> Some l
      | None \<Rightarrow> (case d_toppings (sel_density sel) of Some g \<Rightarrow> Some g | None \<Rightarrow> Some ''normal''))"

definition vegTotal :: "options \<Rightarrow> selection \<Rightarrow> rat" where
  "vegTotal opts sel =
     foldl (\<lambda>sum i. sum + find_price (veggies opts) i * mult (level sel i)) 0 (sel_veggies sel)"

definition total_price :: "options \<Rightarrow> selection \<Rightarrow> rat" where
  "total_price opts sel =
     (let base = find_price (bases opts) (sel_base sel);
          sauceP = find_price (sauces opts) (sel_sauce sel);
          cheeseP = find_price (cheeses opts) (sel_cheese sel);
          d = sel_density sel;
          mSauce = mult (d_sauce d);
          mCheese = mult (d_cheese d)
      in 2 + base + sauceP * mSauce + cheeseP * mCheese + vegTotal opts sel)"

definition customPrice :: "options \<Rightarrow> selection \<Rightarrow> rat" where
  "customPrice opts sel = toFixed2 (total_price opts sel)"


section \<open>The validity gate of the builder\<close>

text \<open>\<^verbatim>\<open>arr?.find(x => x.id === id)?.disabled\<close> as a truth value: an id that is not in
  the list gives \<^verbatim>\<open>undefined\<close>, which is falsy.\<close>

definition find_disabled :: "variant list \<Rightarrow> string \<Rightarrow> bool" where
  "find_disabled arr i =
     (case List.find (\<lambda>x. v_id x = i) arr of None \<Rightarrow> False | Some x \<Rightarrow> v_disabled x)"

definition selectedDisabled :: "options \<Rightarrow> selection \<Rightarrow> bool" where
  "selectedDisabled opts sel =
     ((sel_base sel \<noteq> [] \<and> find_disabled (bases opts) (sel_base sel)) \<or>
      (sel_sauce sel \<noteq> [] \<and> find_disabled (sauces opts) (sel_sauce sel)) \<or>
      (sel_cheese sel \<noteq> [] \<and> find_disabled (cheeses opts) (sel_cheese sel)) \<or>
      list_ex (\<lambda>i. find_disabled (veggies opts) i) (sel_veggies sel))"

definition canAdd :: "options \<Rightarrow> selection \<Rightarrow> bool" where
  "canAdd opts sel =
     (sel_base sel \<noteq> [] \<and> sel_sauce sel \<noteq> [] \<and> sel_cheese sel \<noteq> [] \<and>
      \<not> selectedDisabled opts sel)"

section \<open>The cart\<close>

record pizza =
  p_id :: string
  p_name :: string
  p_price :: rat

text \<open>A cart line is \<^verbatim>\<open>{ pizza, quantity }\<close> or \<^verbatim>\<open>{ custom, price, quantity }\<close>.\<close>

datatype cart_line =
  MenuLine pizza nat
| CustomLine selection rat nat

datatype js_error = TypeError


text \<open>\<^verbatim>\<open>{ ...copy[i], quantity: copy[i].quantity + 1 }\<close>\<close>

fun inc_quantity :: "cart_line \<Rightarrow> cart_line" where
  "inc_quantity (MenuLine p q) = MenuLine p (q + 1)"
| "inc_quantity (CustomLine c pr q) = CustomLine c pr (q + 1)"

text \<open>
  \<^verbatim>\<open>c.findIndex((x) => x.pizza._id === pizza._id)\<close>, with \<open>None\<close> for \<^verbatim>\<open>-1\<close>. The
  callback reads \<^verbatim>\<open>x.pizza._id\<close> of every line it visits; on a custom line
  \<^verbatim>\<open>x.pizza\<close> is \<^verbatim>\<open>undefined\<close> and the read throws a TypeError. Lines behind the
  first match are not visited.
\<close>

fun findIndex_pizza :: "cart_line list \<Rightarrow> string \<Rightarrow> js_error + nat option" where
  "findIndex_pizza [] i = Inr None"
| "findIndex_pizza (MenuLine p q # xs) i =
     (if p_id p = i then Inr (Some 0)
      else (case findIndex_pizza xs i of
              Inl e \<Rightarrow> Inl e
            | Inr None \<Rightarrow> Inr None
            | Inr (Some k) \<Rightarrow> Inr (Some (Suc k))))"
| "findIndex_pizza (CustomLine c pr q # xs) i = Inl TypeError"

definition addToCart :: "pizza \<Rightarrow> cart_line list \<Rightarrow> js_error + cart_line list" where
  "addToCart pz c =
     (case findIndex_pizza c (p_id pz) of
        Inl e \<Rightarrow> Inl e
      | Inr (Some i) \<Rightarrow> Inr (c[i := inc_quantity (c ! i)])
      | Inr None \<Rightarrow> Inr (c @ [MenuLine pz 1]))"

definition addCustomToCart :: "selection \<Rightarrow> rat \<Rightarrow> cart_line list \<Rightarrow> cart_line list" where
  "addCustomToCart custom computedPrice c = c @ [CustomLine custom computedPrice 1]"

text \<open>The builder's button: \<^verbatim>\<open>disabled={!canAdd} onClick={() => addCustomToCart(sel, price)}\<close>.
  A disabled button fires no click.\<close>

definition clickAddToCart ::
  "options \<Rightarrow> selection \<Rightarrow> rat \<Rightarrow> cart_line list \<Rightarrow> cart_line list" where
  "clickAddToCart opts sel price c = (if canAdd opts sel then addCustomToCart sel price c else c)"

section \<open>The admin inventory table\<close>

text \<open>A row of the editable inventory copy; \<^verbatim>\<open>stock\<close> and \<^verbatim>\<open>threshold\<close> may be
  missing. \<^verbatim>\<open>Number(x || 0)\<close> reads a missing value (and \<open>0\<close>) as \<open>0\<close>.\<close>

record inv_row =
  r_id :: string
  r_name :: string
  r_stock :: "int option"
  r_threshold :: "int option"

definition number_or0 :: "int option \<Rightarrow> int" where
  "number_or0 x = (case x of None \<Rightarrow> 0 | Some n \<Rightarrow> (if n = 0 then 0 else n))"

definition disabled :: "inv_row \<Rightarrow> bool" where
  "disabled r = (number_or0 (r_stock r) < number_or0 (r_threshold r))"

section \<open>Loading the catalog\<close>

text \<open>
  The builder keeps what \<^verbatim>\<open>api.customizeOptions()\<close> returns with the cheeses filtered:
  \<^verbatim>\<open>!id.includes('vegan') && !name.includes('vegan')\<close> on the lowercased id and name.
\<close>

definition loadOptions :: "options \<Rightarrow> options" where
  "loadOptions raw =
     raw\<lparr>cheeses :=
       filter (\<lambda>ch. \<not> includes_str (toLowerCase (v_id ch)) ''vegan'' \<and>
                     \<not> includes_str (toLowerCase (v_name ch)) ''vegan'')
         (cheeses raw)\<rparr>"




section \<open>The builder's controls\<close>

text \<open>
  Every control of \<^verbatim>\<open>CustomBuilder\<close> that changes \<^verbatim>\<open>sel\<close>. A control is addressed
  by its position in the list it is rendered from; a position with no control, and a
  control rendered \<^verbatim>\<open>disabled\<close>, changes nothing.
\<close>

definition sel0 :: selection where
  "sel0 =
     \<lparr>sel_base = [], sel_sauce = [], sel_cheese = [], sel_veggies = [],
      sel_density = \<lparr>d_sauce = Some ''normal'', d_cheese = Some ''normal'',
                     d_toppings = Some ''normal''\<rparr>,
      sel_toppingLevels = Map.empty\<rparr>"

definition level_options :: "string list" where
  "level_options = [''low'', ''normal'', ''extra'']"

definition toggleVeg :: "options \<Rightarrow> string \<Rightarrow> selection \<Rightarrow> selection" where
  "toggleVeg opts i s =
     (case List.find (\<lambda>v. v_id v = i) (veggies opts) of
        None \<Rightarrow> s
      | Some item \<Rightarrow>
          if v_disabled item then s
          else if i \<in> set (sel_veggies s)
          then s\<lparr>sel_veggies := filter (\<lambda>x. x \<noteq> i) (sel_veggies s),
                 sel_toppingLevels := (sel_toppingLevels s)(i := None)\<rparr>
          else s\<lparr>sel_veggies := sel_veggies s @ [i],
                 sel_toppingLevels := (sel_toppingLevels s)(i \<mapsto> ''normal'')\<rparr>)"

datatype action =
  PickBase nat
| PickSauce nat
| PickCheese nat
| SauceAmount nat
| CheeseAmount nat
| ToggleVeg nat
| ToppingAmount nat nat

fun act :: "options \<Rightarrow> selection \<Rightarrow> action \<Rightarrow> selection" where
  "act opts s (PickBase k) =
     (if k < length (bases opts) \<and> \<not> v_disabled (bases opts ! k)
      then s\<lparr>sel_base := v_id (bases opts ! k)\<rparr> else s)"
| "act opts s (PickSauce k) =
     (if k < length (sauces opts) \<and> \<not> v_disabled (sauces opts ! k)
      then s\<lparr>sel_sauce := v_id (sauces opts ! k)\<rparr> else s)"
| "act opts s (PickCheese k) =
     (if k < length (cheeses opts) \<and> \<not> v_disabled (cheeses opts ! k)
      then s\<lparr>sel_cheese := v_id (cheeses opts ! k)\<rparr> else s)"
| "act opts s (SauceAmount k) =
     (if k < length level_options \<and>
         \<not> (find_disabled (sauces opts) (sel_sauce s) \<or> sel_sauce s = [])
      then s\<lparr>sel_density := (sel_density s)\<lparr>d_sauce := Some (level_options ! k)\<rparr>\<rparr> else s)"
| "act opts s (CheeseAmount k) =
     (if k < length level_options \<and>
         \<not> (find_disabled (cheeses opts) (sel_cheese s) \<or> sel_cheese s = [])
      then s\<lparr>sel_density := (sel_density s)\<lparr>d_cheese := Some (level_options ! k)\<rparr>\<rparr> else s)"
| "act opts s (ToggleVeg k) =
     (if k < length (veggies opts) \<and> \<not> v_disabled (veggies opts ! k)
      then toggleVeg opts (v_id (veggies opts ! k)) s else s)"
| "act opts s (ToppingAmount j k) =
     (if j < length (sel_veggies s) \<and> k < length level_options
      then s\<lparr>sel_toppingLevels := (sel_toppingLevels s)(sel_veggies s ! j \<mapsto> level_options ! k)\<rparr>
      else s)"

text \<open>The selection after a sequence of clicks, from the initial state.\<close>

definition builder :: "options \<Rightarrow> action list \<Rightarrow> selection" where
  "builder opts acts = foldl (act opts) sel0 acts"

section \<open>Checkout\<close>












text \<open>
  The end of \<^verbatim>\<open>payNow\<close>, after the gateway's \<^verbatim>\<open>checkout\<close> promise has resolved with
  \<^verbatim>\<open>result\<close>. \<open>result_error\<close> is the truth value of \<^verbatim>\<open>result?.error\<close>; the
  verification call returns a response, of which only the truth value of
  \<^verbatim>\<open>v?.success\<close> is read, or throws.
\<close>

datatype pay_status = Idle | Success | Error

datatype verify_outcome = Verified bool | VerifyThrows

record app_state =
  cart :: "cart_line list"
  payResult :: "pay_status \<times> string"
  placing :: bool

definition payNow_finish :: "bool \<Rightarrow> verify_outcome \<Rightarrow> string \<Rightarrow> app_state \<Rightarrow> app_state" where
  "payNow_finish result_error v orderId st =
     (let st' =
        (if \<not> result_error then
           (case v of
              Verified ok \<Rightarrow>
                (if ok then st\<lparr>cart := [], payResult := (Success, orderId)\<rparr>
                 else st\<lparr>payResult := (Error, orderId)\<rparr>)
            | VerifyThrows \<Rightarrow> st\<lparr>payResult := (Error, orderId)\<rparr>)
         else st\<lparr>payResult := (Error, orderId)\<rparr>)
      in st'\<lparr>placing := False\<rparr>)"

text \<open>What \<^verbatim>\<open>PaymentStatus\<close> shows for a status: the heading and the two buttons. The
  checkout dialog shows it when the status is \<^verbatim>\<open>success\<close> or \<^verbatim>\<open>error\<close>.\<close>

datatype button = TrackMyOrder | BackToMenu | TryAgain

definition PaymentStatus :: "pay_status \<Rightarrow> string \<times> button list" where
  "PaymentStatus status =
     (let ok = (status = Success)
      in (if ok then ''Payment successful'' else ''Payment failed'',
          if ok then [TrackMyOrder, BackToMenu] else [TryAgain, BackToMenu]))"

definition shows_PaymentStatus :: "app_state \<Rightarrow> bool" where
  "shows_PaymentStatus st = (fst (payResult st) = Success \<or> fst (payResult st) = Error)"

section \<open>The authoritative price\<close>

text \<open>
  Modelled from the spec: the server-side pricing of a custom composition at order
  creation. The route modules that \<^verbatim>\<open>server.js\<close> mounts (\<^verbatim>\<open>./routes/orders\<close>,
  \<^verbatim>\<open>./routes/payments\<close>, \<^verbatim>\<open>./routes/customize\<close>) are not among the sources, so
  the definitions below follow the algorithm of the specification's section 4.3 step
  by step: prices looked up with 0 for an unmatched id; the multiplier table
  \<open>low|light \<rightarrow> 1\<close>, \<open>extra \<rightarrow> 3\<close>, anything else \<open>\<rightarrow> 2\<close>; a veggie's level its own
  override if present, else the global topping density, else \<open>normal\<close>; the build fee
  2; the result rounded half-up to two decimals.
\<close>

text \<open>Modelled from the spec: step 1, the price of a selected id, 0 if unmatched (the
  server's lookup is not among the sources).\<close>

definition spec_lookup :: "variant list \<Rightarrow> string \<Rightarrow> rat" where
  "spec_lookup arr i = (case List.find (\<lambda>x. v_id x = i) arr of None \<Rightarrow> 0 | Some x \<Rightarrow> v_price x)"

text \<open>Modelled from the spec: step 2, the density multiplier table of the server-side
  engine.\<close>

definition spec_mult :: "string option \<Rightarrow> rat" where
  "spec_mult lv =
     (if lv = Some ''low'' \<or> lv = Some ''light'' then 1 else if lv = Some ''extra'' then 3 else 2)"

text \<open>Modelled from the spec: step 5, the level of a selected veggie as the server-side
  engine reads it.\<close>

definition spec_level :: "selection \<Rightarrow> string \<Rightarrow> string option" where
  "spec_level cmpn i =
     (if sel_toppingLevels cmpn i \<noteq> None then sel_toppingLevels cmpn i
      else if d_toppings (sel_density cmpn) \<noteq> None then d_toppings (sel_density cmpn)
      else Some ''normal'')"

text \<open>Modelled from the spec: step 7, rounding to two decimals, half-up at the cent
  boundary.\<close>

definition spec_round2 :: "rat \<Rightarrow> rat" where
  "spec_round2 x = of_int \<lfloor>x * 100 + 1 / 2\<rfloor> / 100"

text \<open>Modelled from the spec: steps 3 to 7, the server-side price of a composition
  against a catalog.\<close>

definition spec_price :: "options \<Rightarrow> selection \<Rightarrow> rat" where
  "spec_price cat cmpn =
     spec_round2
       (2 + spec_lookup (bases cat) (sel_base cmpn)
          + spec_lookup (sauces cat) (sel_sauce cmpn) * spec_mult (d_sauce (sel_density cmpn))
          + spec_lookup (cheeses cat) (sel_cheese cmpn) * spec_mult (d_cheese (sel_density cmpn))
          + (\<Sum>i\<leftarrow>sel_veggies cmpn. spec_lookup (veggies cat) i * spec_mult (spec_level cmpn i)))"

section \<open>Predicates used in the statements\<close>


text \<open>A density level written in lower case, as the data model's \<^verbatim>\<open>low\<close>,
  \<^verbatim>\<open>normal\<close> and \<^verbatim>\<open>extra\<close> are; a missing level counts.\<close>

definition plain_level :: "string option \<Rightarrow> bool" where
  "plain_level lv = (case lv of None \<Rightarrow> True | Some s \<Rightarrow> toLowerCase s = s)"

text \<open>A catalog whose prices are all non-negative, as the data model requires.\<close>

definition nonneg_prices :: "options \<Rightarrow> bool" where
  "nonneg_prices cat =
     (list_all (\<lambda>v. 0 \<le> v_price v) (bases cat) \<and> list_all (\<lambda>v. 0 \<le> v_price v) (sauces cat) \<and>
      list_all (\<lambda>v. 0 \<le> v_price v) (cheeses cat) \<and> list_all (\<lambda>v. 0 \<le> v_price v) (veggies cat))"


text \<open>Every density level of a selection is one of the three that the level buttons
  offer.\<close>

definition levels_from_buttons :: "selection \<Rightarrow> bool" where
  "levels_from_buttons s =
     (d_sauce (sel_density s) \<in> Some ` set level_options \<and>
      d_cheese (sel_density s) \<in> Some ` set level_options \<and>
      d_toppings (sel_density s) \<in> Some ` set level_options \<and>
      ran (sel_toppingLevels s) \<subseteq> set level_options)"

section \<open>A concrete catalog\<close>

text \<open>
  The catalog of the specification's test vectors (base 100, sauce 20, cheese 30, a
  veggie at 10), extended by a cheese that the builder filters out, a veggie whose
  price ends in half a cent and a veggie that is out of stock.
\<close>

definition ex_raw :: options where
  "ex_raw =
     \<lparr>bases = [\<lparr>v_id = ''thinCrust'', v_name = ''Thin Crust'', v_price = 100, v_disabled = False\<rparr>],
      sauces = [\<lparr>v_id = ''tomato'', v_name = ''Tomato'', v_price = 20, v_disabled = False\<rparr>],
      cheeses = [\<lparr>v_id = ''veganCheese'', v_name = ''Vegan Cheese'', v_price = 40, v_disabled = False\<rparr>,
                 \<lparr>v_id = ''mozzarella'', v_name = ''Mozzarella'', v_price = 30, v_disabled = False\<rparr>],
      veggies = [\<lparr>v_id = ''capsicum'', v_name = ''Capsicum'', v_price = 10, v_disabled = False\<rparr>,
                 \<lparr>v_id = ''jalapeno'', v_name = ''Jalapeno'', v_price = 1 / 8, v_disabled = False\<rparr>,
                 \<lparr>v_id = ''paneer'', v_name = ''Paneer'', v_price = 15, v_disabled = True\<rparr>]\<rparr>"

definition ex_opts :: options where
  "ex_opts = loadOptions ex_raw"

text \<open>Thin crust, tomato, mozzarella, capsicum at \<^verbatim>\<open>extra\<close>.\<close>

definition ex_sel :: selection where
  "ex_sel =
     sel0\<lparr>sel_base := ''thinCrust'', sel_sauce := ''tomato'', sel_cheese := ''mozzarella'',
          sel_veggies := [''capsicum''], sel_toppingLevels := [''capsicum'' \<mapsto> ''extra'']\<rparr>"

text \<open>Thin crust and jalapeno at \<^verbatim>\<open>low\<close>, no sauce and no cheese yet.\<close>

definition ex_sel_partial :: selection where
  "ex_sel_partial =
     sel0\<lparr>sel_base := ''thinCrust'', sel_veggies := [''jalapeno''],
          sel_toppingLevels := [''jalapeno'' \<mapsto> ''low'']\<rparr>"

text \<open>As \<open>ex_sel\<close>, with the out-of-stock paneer among the veggies and no level of
  its own, and no global topping density.\<close>

definition ex_sel_paneer :: selection where
  "ex_sel_paneer =
     ex_sel\<lparr>sel_veggies := [''capsicum'', ''paneer''],
            sel_density := \<lparr>d_sauce = Some ''normal'', d_cheese = Some ''normal'',
                            d_toppings = None\<rparr>\<rparr>"

definition ex_pizza :: pizza where
  "ex_pizza = \<lparr>p_id = ''p1'', p_name = ''Margherita'', p_price = 8\<rparr>"

section \<open>Lemmas about the JavaScript primitives\<close>

lemma foldl_plus_sum_list:
  "foldl (\<lambda>s x. s + f x) a xs = (a::rat) + (\<Sum>x\<leftarrow>xs. f x)"
  by (induction xs arbitrary: a) (simp_all add: add.assoc)

lemma floor_rat_numeral_div:
  "\<lfloor>(numeral a :: rat) / numeral b\<rfloor> = numeral a div numeral b"
  "\<lfloor>- (numeral a :: rat) / numeral b\<rfloor> = - numeral a div numeral b"
  by (metis floor_divide_of_int_eq of_int_numeral)
    (metis floor_divide_of_int_eq of_int_numeral of_int_minus)









lemma ex_opts_eval:
  "ex_opts =
     \<lparr>bases = [\<lparr>v_id = ''thinCrust'', v_name = ''Thin Crust'', v_price = 100, v_disabled = False\<rparr>],
      sauces = [\<lparr>v_id = ''tomato'', v_name = ''Tomato'', v_price = 20, v_disabled = False\<rparr>],
      cheeses = [\<lparr>v_id = ''mozzarella'', v_name = ''Mozzarella'', v_price = 30, v_disabled = False\<rparr>],
      veggies = [\<lparr>v_id = ''capsicum'', v_name = ''Capsicum'', v_price = 10, v_disabled = False\<rparr>,
                 \<lparr>v_id = ''jalapeno'', v_name = ''Jalapeno'', v_price = 1 / 8, v_disabled = False\<rparr>,
                 \<lparr>v_id = ''paneer'', v_name = ''Paneer'', v_price = 15, v_disabled = True\<rparr>]\<rparr>"
  by (simp add: ex_opts_def ex_raw_def loadOptions_def toLowerCase_def lower_char_def)

section \<open>The density multiplier\<close>

lemma mult_Some:
  "mult (Some s) =
     (if toLowerCase s = ''low'' \<or> toLowerCase s = ''light'' then 1
      else if toLowerCase s = ''extra'' then 3 else 2)"
proof (cases "s = []")
  case True
  then show ?thesis by (simp add: mult_def norm_level_def toLowerCase_def lower_char_def)
next
  case False
  then show ?thesis by (simp add: mult_def norm_level_def)
qed

lemma mult_None: "mult None = 2"
  by (simp add: mult_def norm_level_def toLowerCase_def lower_char_def)


section \<open>The availability rule\<close>

text \<open>
  Claim C4. For non-negative integers \<open>s\<close> (stock) and \<open>t\<close> (threshold), a row with
  that stock and threshold is disabled exactly when \<open>s < t\<close>; at \<open>s = t\<close> it is not
  disabled.
\<close>

theorem disabled_iff_stock_below_threshold:
  "disabled (r\<lparr>r_stock := Some (int s), r_threshold := Some (int t)\<rparr>) = (s < t) \<and>
   \<not> disabled (r\<lparr>r_stock := Some (int s), r_threshold := Some (int s)\<rparr>)"
  by (simp add: disabled_def number_or0_def)

section \<open>The custom-pizza price\<close>

lemma vegTotal_sum_list:
  "vegTotal opts sel = (\<Sum>i\<leftarrow>sel_veggies sel. find_price (veggies opts) i * mult (level sel i))"
  by (simp add: vegTotal_def foldl_plus_sum_list)







section \<open>The add-to-cart gate\<close>

lemma find_disabled_iff:
  "find_disabled arr i = (\<exists>x. List.find (\<lambda>x. v_id x = i) arr = Some x \<and> v_disabled x)"
  by (simp add: find_disabled_def split: option.splits)

lemma selectedDisabled_iff:
  "selectedDisabled opts sel =
     ((sel_base sel \<noteq> [] \<and> find_disabled (bases opts) (sel_base sel)) \<or>
      (sel_sauce sel \<noteq> [] \<and> find_disabled (sauces opts) (sel_sauce sel)) \<or>
      (sel_cheese sel \<noteq> [] \<and> find_disabled (cheeses opts) (sel_cheese sel)) \<or>
      (\<exists>i\<in>set (sel_veggies sel). find_disabled (veggies opts) i))"
  by (simp add: selectedDisabled_def list_ex_iff)

text \<open>
  Claim C5. The add-to-cart button is enabled exactly when base, sauce and cheese are
  all selected and none of the selected base, sauce, cheese and veggies is disabled,
  where a selected id is disabled when the first variant of its category with that id
  carries the flag. A click adds the selection as a new line when the button is
  enabled and leaves the cart as it is otherwise, whatever price is displayed.
\<close>

theorem canAdd_gate:
  "(canAdd opts sel \<longleftrightarrow>
      sel_base sel \<noteq> [] \<and> sel_sauce sel \<noteq> [] \<and> sel_cheese sel \<noteq> [] \<and>
      \<not> find_disabled (bases opts) (sel_base sel) \<and>
      \<not> find_disabled (sauces opts) (sel_sauce sel) \<and>
      \<not> find_disabled (cheeses opts) (sel_cheese sel) \<and>
      (\<forall>i\<in>set (sel_veggies sel). \<not> find_disabled (veggies opts) i)) \<and>
   (canAdd opts sel \<longrightarrow> clickAddToCart opts sel price c = c @ [CustomLine sel price 1]) \<and>
   (\<not> canAdd opts sel \<longrightarrow> clickAddToCart opts sel price c = c) \<and>
   (find_disabled arr i \<longleftrightarrow>
      (\<exists>x. List.find (\<lambda>x. v_id x = i) arr = Some x \<and> v_disabled x))"
proof -
  have "canAdd opts sel \<longleftrightarrow>
      sel_base sel \<noteq> [] \<and> sel_sauce sel \<noteq> [] \<and> sel_cheese sel \<noteq> [] \<and>
      \<not> find_disabled (bases opts) (sel_base sel) \<and>
      \<not> find_disabled (sauces opts) (sel_sauce sel) \<and>
      \<not> find_disabled (cheeses opts) (sel_cheese sel) \<and>
      (\<forall>i\<in>set (sel_veggies sel). \<not> find_disabled (veggies opts) i)"
    unfolding canAdd_def selectedDisabled_iff by blast
  moreover have "canAdd opts sel \<longrightarrow> clickAddToCart opts sel price c = c @ [CustomLine sel price 1]"
    by (simp add: clickAddToCart_def addCustomToCart_def)
  moreover have "\<not> canAdd opts sel \<longrightarrow> clickAddToCart opts sel price c = c"
    by (simp add: clickAddToCart_def)
  ultimately show ?thesis using find_disabled_iff [of arr i] by blast
qed

lemma ex_paneer_price: "customPrice ex_opts ex_sel_paneer = 262"
  by (simp add: customPrice_def total_price_def vegTotal_def level_def ex_opts_eval ex_sel_paneer_def
      ex_sel_def sel0_def find_price_def mult_def norm_level_def toLowerCase_def lower_char_def
      toFixed2_def floor_rat_numeral_div)

lemma ex_partial_price: "customPrice ex_opts ex_sel_partial = 10213 / 100"
  by (simp add: customPrice_def total_price_def vegTotal_def level_def ex_opts_eval ex_sel_partial_def
      sel0_def find_price_def mult_def norm_level_def toLowerCase_def lower_char_def
      toFixed2_def floor_rat_numeral_div)

theorem canAdd_gate_witness:
  "canAdd ex_opts ex_sel \<and>
   clickAddToCart ex_opts ex_sel 232 [] = [CustomLine ex_sel 232 1] \<and>
   sel_cheese ex_sel_partial = [] \<and> \<not> canAdd ex_opts ex_sel_partial \<and>
   customPrice ex_opts ex_sel_partial = 10213 / 100 \<and>
   clickAddToCart ex_opts ex_sel_partial (10213 / 100) [MenuLine ex_pizza 1] = [MenuLine ex_pizza 1] \<and>
   ''paneer'' \<in> set (sel_veggies ex_sel_paneer) \<and> find_disabled (veggies ex_opts) ''paneer'' \<and>
   \<not> canAdd ex_opts ex_sel_paneer \<and>
   customPrice ex_opts ex_sel_paneer = 262 \<and>
   clickAddToCart ex_opts ex_sel_paneer 262 [MenuLine ex_pizza 1] = [MenuLine ex_pizza 1]"
proof -
  have ok: "sel_base ex_sel \<noteq> [] \<and> sel_sauce ex_sel \<noteq> [] \<and> sel_cheese ex_sel \<noteq> [] \<and>
      \<not> find_disabled (bases ex_opts) (sel_base ex_sel) \<and>
      \<not> find_disabled (sauces ex_opts) (sel_sauce ex_sel) \<and>
      \<not> find_disabled (cheeses ex_opts) (sel_cheese ex_sel) \<and>
      (\<forall>i\<in>set (sel_veggies ex_sel). \<not> find_disabled (veggies ex_opts) i)"
    by (simp add: ex_opts_eval ex_sel_def sel0_def find_disabled_def)
  have missing: "sel_cheese ex_sel_partial = []"
    by (simp add: ex_sel_partial_def sel0_def)
  have out: "''paneer'' \<in> set (sel_veggies ex_sel_paneer)" "find_disabled (veggies ex_opts) ''paneer''"
    by (simp_all add: ex_opts_eval ex_sel_paneer_def find_disabled_def)
  note g1 = canAdd_gate [of ex_opts ex_sel 232 "[]" "veggies ex_opts" "''paneer''"]
  note g2 = canAdd_gate [of ex_opts ex_sel_partial "10213 / 100" "[MenuLine ex_pizza 1]"
      "veggies ex_opts" "''paneer''"]
  note g3 = canAdd_gate [of ex_opts ex_sel_paneer 262 "[MenuLine ex_pizza 1]"
      "veggies ex_opts" "''paneer''"]
  have a1: "canAdd ex_opts ex_sel" using g1 ok by blast
  then have a2: "clickAddToCart ex_opts ex_sel 232 [] = [CustomLine ex_sel 232 1]"
    using g1 by simp
  have b1: "\<not> canAdd ex_opts ex_sel_partial" using g2 missing by blast
  then have b2: "clickAddToCart ex_opts ex_sel_partial (10213 / 100) [MenuLine ex_pizza 1]
      = [MenuLine ex_pizza 1]"
    using g2 by blast
  have c1: "\<not> canAdd ex_opts ex_sel_paneer" using g3 out by blast
  then have c2: "clickAddToCart ex_opts ex_sel_paneer 262 [MenuLine ex_pizza 1]
      = [MenuLine ex_pizza 1]"
    using g3 by blast
  show ?thesis
    using a1 a2 b1 b2 c1 c2 missing out ex_paneer_price ex_partial_price by blast
qed

section \<open>Adding to the cart\<close>

text \<open>
  The search finds nothing exactly on the carts that consist of menu lines for other
  pizzas. On such a cart the pizza is appended with quantity 1 and a second add raises
  that line to quantity 2. A custom composition is always appended as a line of its
  own. A cart that starts with a custom line makes every menu add throw.
\<close>

lemma findIndex_pizza_menu_only:
  "findIndex_pizza c i = Inr None \<longleftrightarrow>
     (\<forall>l\<in>set c. \<exists>p q. l = MenuLine p q \<and> p_id p \<noteq> i)"
proof (induction c)
  case Nil
  then show ?case by simp
next
  case (Cons l c)
  then show ?case
    by (cases l) (auto split: sum.splits option.splits)
qed

lemma addToCart_fresh:
  "findIndex_pizza c (p_id pz) = Inr None \<Longrightarrow> addToCart pz c = Inr (c @ [MenuLine pz 1])"
  by (simp add: addToCart_def)

lemma findIndex_pizza_append_new:
  "findIndex_pizza c (p_id pz) = Inr None \<Longrightarrow>
   findIndex_pizza (c @ [MenuLine pz q]) (p_id pz) = Inr (Some (length c))"
proof (induction c)
  case Nil
  then show ?case by simp
next
  case (Cons l c)
  then show ?case
    by (cases l) (auto split: sum.splits option.splits if_splits)
qed

lemma addToCart_twice:
  assumes "findIndex_pizza c (p_id pz) = Inr None"
  shows "addToCart pz (c @ [MenuLine pz 1]) = Inr (c @ [MenuLine pz 2])"
  using findIndex_pizza_append_new [OF assms, of 1]
  by (simp add: addToCart_def)

lemma addCustomToCart_appends:
  "addCustomToCart custom computedPrice c = c @ [CustomLine custom computedPrice 1]"
  by (simp add: addCustomToCart_def)

lemma addToCart_custom_head: "addToCart pz (CustomLine custom pr q # c) = Inl TypeError"
  by (simp add: addToCart_def)

text \<open>
  Claim C6. Adding the same menu pizza twice gives one line with quantity 2, and adding
  a custom composition always appends a line with quantity 1, for every prior cart.
  The code does not do the first on a cart that holds a custom line: with the custom
  pizza of the example in the cart, adding a menu pizza throws a TypeError in
  \<^verbatim>\<open>findIndex\<close> and yields no cart.
\<close>

theorem addToCart_after_custom_throws:
  "addToCart ex_pizza (addCustomToCart ex_sel 232 []) = Inl TypeError"
  by (simp add: addToCart_def addCustomToCart_def)

section \<open>Payment verification\<close>

text \<open>
  Claim C7. After the gateway step has completed without an error: when verification
  reports success the cart is emptied and the result is \<^verbatim>\<open>success\<close>; when it
  reports failure or throws the cart stays as it was and the result is \<^verbatim>\<open>error\<close>
  for that order id, which the dialog shows as "Payment failed" with a "Try again"
  button.
\<close>

theorem payNow_finish_verification:
  "cart (payNow_finish False (Verified True) orderId st) = [] \<and>
   payResult (payNow_finish False (Verified True) orderId st) = (Success, orderId) \<and>
   cart (payNow_finish False (Verified False) orderId st) = cart st \<and>
   payResult (payNow_finish False (Verified False) orderId st) = (Error, orderId) \<and>
   shows_PaymentStatus (payNow_finish False (Verified False) orderId st) \<and>
   cart (payNow_finish False VerifyThrows orderId st) = cart st \<and>
   payResult (payNow_finish False VerifyThrows orderId st) = (Error, orderId) \<and>
   shows_PaymentStatus (payNow_finish False VerifyThrows orderId st) \<and>
   PaymentStatus Error = (''Payment failed'', [TryAgain, BackToMenu])"
  by (simp add: payNow_finish_def shows_PaymentStatus_def PaymentStatus_def)

section \<open>The amount posted at checkout\<close>



section \<open>The vegan cheese filter\<close>


lemma loadOptions_others:
  "bases (loadOptions raw) = bases raw" "sauces (loadOptions raw) = sauces raw"
  "veggies (loadOptions raw) = veggies raw"
  by (simp_all add: loadOptions_def)









section \<open>Client price and authoritative price\<close>

lemma find_price_spec_lookup: "find_price arr i = spec_lookup arr i"
  by (simp add: find_price_def spec_lookup_def split: option.splits)

lemma level_spec_level: "level sel i = spec_level sel i"
  by (simp add: level_def spec_level_def split: option.splits)

lemma mult_spec_mult: "plain_level lv \<Longrightarrow> mult lv = spec_mult lv"
proof (cases lv)
  case None
  then show ?thesis by (simp add: mult_None spec_mult_def)
next
  case (Some s)
  assume "plain_level lv"
  then have "toLowerCase s = s" using Some by (simp add: plain_level_def)
  then show ?thesis using Some by (simp add: mult_Some spec_mult_def)
qed

lemma mult_pos: "0 \<le> mult lv"
  by (simp add: mult_def Let_def)

lemma find_price_nonneg: "list_all (\<lambda>v. 0 \<le> v_price v) arr \<Longrightarrow> 0 \<le> find_price arr i"
proof (cases "List.find (\<lambda>x. v_id x = i) arr")
  case None
  then show ?thesis by (simp add: find_price_def)
next
  case (Some x)
  assume "list_all (\<lambda>v. 0 \<le> v_price v) arr"
  moreover have "x \<in> set arr" using Some by (auto simp: find_Some_iff)
  ultimately have "0 \<le> v_price x" by (simp add: list_all_iff)
  then show ?thesis using Some by (simp add: find_price_def)
qed

lemma total_nonneg:
  assumes "nonneg_prices cat"
  shows "0 \<le> total_price cat sel"
proof -
  have b: "0 \<le> find_price (bases cat) (sel_base sel)"
    and s: "0 \<le> find_price (sauces cat) (sel_sauce sel) * mult (d_sauce (sel_density sel))"
    and c: "0 \<le> find_price (cheeses cat) (sel_cheese sel) * mult (d_cheese (sel_density sel))"
    using assms by (simp_all add: nonneg_prices_def find_price_nonneg mult_pos)
  have "\<And>i. 0 \<le> find_price (veggies cat) i * mult (level sel i)"
    using assms by (simp add: nonneg_prices_def find_price_nonneg mult_pos)
  then have v: "0 \<le> vegTotal cat sel"
    unfolding vegTotal_sum_list by (intro sum_list_nonneg) auto
  show ?thesis
    using b s c v by (simp add: total_price_def Let_def)
qed

lemma toFixed2_spec_round2: "0 \<le> x \<Longrightarrow> toFixed2 x = spec_round2 x"
  by (simp add: toFixed2_def spec_round2_def)

lemma customPrice_eq_spec_price:
  assumes "nonneg_prices cat"
    and "plain_level (d_sauce (sel_density sel))"
    and "plain_level (d_cheese (sel_density sel))"
    and "\<forall>i\<in>set (sel_veggies sel). plain_level (level sel i)"
  shows "customPrice cat sel = spec_price cat sel"
proof -
  have veg: "(\<Sum>i\<leftarrow>sel_veggies sel. find_price (veggies cat) i * mult (level sel i))
      = (\<Sum>i\<leftarrow>sel_veggies sel. spec_lookup (veggies cat) i * spec_mult (spec_level sel i))"
  proof (rule arg_cong [where f = sum_list], rule map_cong [OF refl])
    fix i assume "i \<in> set (sel_veggies sel)"
    then have "plain_level (level sel i)" using assms(4) by blast
    then show "find_price (veggies cat) i * mult (level sel i)
        = spec_lookup (veggies cat) i * spec_mult (spec_level sel i)"
      using mult_spec_mult [of "level sel i"]
      by (simp add: find_price_spec_lookup level_spec_level)
  qed
  have tot: "total_price cat sel =
      2 + spec_lookup (bases cat) (sel_base sel)
        + spec_lookup (sauces cat) (sel_sauce sel) * spec_mult (d_sauce (sel_density sel))
        + spec_lookup (cheeses cat) (sel_cheese sel) * spec_mult (d_cheese (sel_density sel))
        + (\<Sum>i\<leftarrow>sel_veggies sel. spec_lookup (veggies cat) i * spec_mult (spec_level sel i))"
    using mult_spec_mult [OF assms(2)] mult_spec_mult [OF assms(3)] veg
    by (simp add: total_price_def Let_def vegTotal_sum_list find_price_spec_lookup)
  have "customPrice cat sel = spec_round2 (total_price cat sel)"
    unfolding customPrice_def using total_nonneg [OF assms(1)] by (rule toFixed2_spec_round2)
  then show ?thesis by (simp add: spec_price_def tot)
qed



text \<open>
  Every selection that the builder's controls can produce has its levels among the
  three of the level buttons, so the two prices agree on everything the builder can
  put into the cart.
\<close>

lemma toggleVeg_levels: "levels_from_buttons s \<Longrightarrow> levels_from_buttons (toggleVeg opts i s)"
  by (auto simp: toggleVeg_def levels_from_buttons_def level_options_def ran_def
      split: option.splits if_splits)

lemma act_levels: "levels_from_buttons s \<Longrightarrow> levels_from_buttons (act opts s a)"
proof (cases a)
  case (ToggleVeg k)
  assume "levels_from_buttons s"
  then show ?thesis using ToggleVeg by (simp add: toggleVeg_levels)
next
  case (ToppingAmount j k)
  assume "levels_from_buttons s"
  then show ?thesis using ToppingAmount
    by (auto simp: levels_from_buttons_def ran_def split: if_splits)
qed (auto simp: levels_from_buttons_def)

lemma foldl_act_levels:
  "levels_from_buttons s \<Longrightarrow> levels_from_buttons (foldl (act opts) s acts)"
  by (induction acts arbitrary: s) (simp_all add: act_levels)

lemma builder_levels: "levels_from_buttons (builder opts acts)"
  unfolding builder_def
  by (rule foldl_act_levels) (simp add: levels_from_buttons_def sel0_def level_options_def)

lemma level_option_plain: "l \<in> set level_options \<Longrightarrow> plain_level (Some l)"
  by (auto simp: level_options_def plain_level_def toLowerCase_def lower_char_def)

lemma levels_from_buttons_plain:
  assumes "levels_from_buttons s"
  shows "plain_level (d_sauce (sel_density s))" "plain_level (d_cheese (sel_density s))"
    "plain_level (level s i)"
proof -
  show "plain_level (d_sauce (sel_density s))" "plain_level (d_cheese (sel_density s))"
    using assms level_option_plain by (auto simp: levels_from_buttons_def)
  show "plain_level (level s i)"
  proof (cases "sel_toppingLevels s i")
    case None
    then show ?thesis
      using assms level_option_plain by (auto simp: levels_from_buttons_def level_def)
  next
    case (Some l)
    then have "l \<in> set level_options"
      using assms by (auto simp: levels_from_buttons_def ran_def)
    then show ?thesis using Some level_option_plain by (simp add: level_def)
  qed
qed

lemma builder_price_equals_spec_price:
  "nonneg_prices opts \<Longrightarrow>
   customPrice opts (builder opts acts) = spec_price opts (builder opts acts)"
  using levels_from_buttons_plain [OF builder_levels, of opts acts]
  by (intro customPrice_eq_spec_price) auto

text \<open>
  The restriction to lower-case levels is needed: the client lowercases a level before
  it looks it up, the specified table does not.
\<close>

lemma upper_case_level_differs:
  "customPrice ex_opts (ex_sel\<lparr>sel_density := (sel_density ex_sel)\<lparr>d_sauce := Some ''EXTRA''\<rparr>\<rparr>) = 252 \<and>
   spec_price ex_opts (ex_sel\<lparr>sel_density := (sel_density ex_sel)\<lparr>d_sauce := Some ''EXTRA''\<rparr>\<rparr>) = 232"
  by (simp add: customPrice_def total_price_def vegTotal_def level_def find_price_def mult_def norm_level_def
        toFixed2_def spec_price_def spec_lookup_def spec_mult_def spec_level_def spec_round2_def
        ex_opts_eval ex_sel_def sel0_def floor_rat_numeral_div toLowerCase_def lower_char_def)

end
